theory Spec2Isabelle
  imports Complex_Main
begin

section \<open>Values of the host language\<close>

text \<open>
  A JavaScript \<open>number\<close> is modelled as a real: every finite reading, percentage, confidence
  and millisecond count is a real, and \<open>NaN\<close> and the infinities have no counterpart here.
  An optional property (\<open>x?: T\<close>) is an \<open>option\<close>; \<open>None\<close> is the absent property.
  The conditions of the source test optional properties by truthiness, so the three
  truthiness tests it relies on are written out: a number is truthy unless it is zero,
  a string unless it is empty, a boolean when it is \<open>true\<close>; an absent property is falsy.
\<close>

type_synonym number = real

definition truthy_number :: "number option \<Rightarrow> bool" where
  "truthy_number x = (case x of None \<Rightarrow> False | Some v \<Rightarrow> v \<noteq> 0)"

definition truthy_string :: "string option \<Rightarrow> bool" where
  "truthy_string x = (case x of None \<Rightarrow> False | Some v \<Rightarrow> v \<noteq> [])"

definition truthy_boolean :: "bool option \<Rightarrow> bool" where
  "truthy_boolean x = (case x of None \<Rightarrow> False | Some v \<Rightarrow> v)"

section \<open>utils.ts: the severity classifier\<close>

datatype Severity = Low | Medium | High | Critical

text \<open>The second argument of \<open>calculateAlertSeverity\<close>:
  \<open>{ temperature?: number; fillPercent?: number; confidence?: number }\<close>.\<close>

record SeverityContext =
  sc_temperature :: "number option"
  sc_fillPercent :: "number option"
  sc_confidence :: "number option"

text \<open>
  The alert type is the string the \<open>switch\<close> compares, so that the \<open>default\<close> branch
  (a type outside the three known ones) is part of the model.
\<close>

definition calculateAlertSeverity :: "string \<Rightarrow> SeverityContext \<Rightarrow> Severity" where
  "calculateAlertSeverity ty ctx =
     (if ty = ''temperature'' then
        (if \<not> truthy_number (sc_temperature ctx) then Medium
         else let tempAbs = \<bar>the (sc_temperature ctx)\<bar> in
           if tempAbs > 10 then Critical
           else if tempAbs > 5 then High
           else if tempAbs > 2 then Medium
           else Low)
      else if ty = ''empty_shelf'' then
        (if \<not> truthy_number (sc_fillPercent ctx) then Medium
         else let fp = the (sc_fillPercent ctx) in
           if fp < 5 then High
           else if fp < 15 then Medium
           else if fp < 25 then Low
           else Low)
      else if ty = ''equipment_failure'' then Critical
      else Medium)"

section \<open>alerts.ts: SmartAlertFilter\<close>

text \<open>The \<open>context\<close> argument of \<open>shouldSuppressAlert\<close>.\<close>

record FilterContext =
  ctx_personDetected :: "bool option"
  ctx_isBusinessHours :: "bool option"
  ctx_fillPercent :: "number option"
  ctx_temperature :: "number option"
  ctx_confidence :: "number option"

text \<open>
  The two private maps of the class: \<open>recentAlerts\<close> from the alert key to the time of
  the last allowed alert, \<open>suppressionRules\<close> from the alert type to a custom window.
\<close>

record SmartAlertFilter =
  recentAlerts :: "string \<rightharpoonup> number"
  suppressionRules :: "string \<rightharpoonup> number"

definition new_SmartAlertFilter :: SmartAlertFilter where
  "new_SmartAlertFilter = \<lparr> recentAlerts = Map.empty, suppressionRules = Map.empty \<rparr>"

definition alertKey :: "string \<Rightarrow> string \<Rightarrow> string" where
  "alertKey storeId ty = storeId @ ''-'' @ ty"

definition setSuppressionRule :: "SmartAlertFilter \<Rightarrow> string \<Rightarrow> number \<Rightarrow> SmartAlertFilter" where
  "setSuppressionRule st ty timeMs = st\<lparr> suppressionRules := (suppressionRules st)(ty \<mapsto> timeMs) \<rparr>"

definition clearSuppressionHistory :: "SmartAlertFilter \<Rightarrow> SmartAlertFilter" where
  "clearSuppressionHistory st = st\<lparr> recentAlerts := Map.empty \<rparr>"

definition shouldSuppressBasedOnContext :: "string \<Rightarrow> FilterContext \<Rightarrow> bool" where
  "shouldSuppressBasedOnContext ty ctx =
     (if ty = ''empty_shelf'' then
        (if truthy_boolean (ctx_personDetected ctx) then True
         else if truthy_number (ctx_fillPercent ctx) \<and> the (ctx_fillPercent ctx) > 20 then True
         else if \<not> truthy_boolean (ctx_isBusinessHours ctx) \<and> truthy_number (ctx_fillPercent ctx)
                 \<and> the (ctx_fillPercent ctx) > 10 then True
         else False)
      else if ty = ''temperature'' then
        (if truthy_boolean (ctx_isBusinessHours ctx) \<and> truthy_number (ctx_temperature ctx)
            \<and> \<bar>the (ctx_temperature ctx)\<bar> < 3 then True
         else if truthy_number (ctx_temperature ctx) \<and> \<bar>the (ctx_temperature ctx)\<bar> < 1 then True
         else False)
      else False)"

text \<open>
  A property read \<open>table[key]\<close> on an object literal whose own properties are numbers.
  An own property gives its number. A key that names a member of \<open>Object.prototype\<close>
  gives that member, a function or an object: it is truthy and it is not a number.
  Every other key reads as undefined.
\<close>

datatype lookup = Undefined | Own number | Inherited

definition objectPrototypeMembers :: "string list" where
  "objectPrototypeMembers =
     [''constructor'', ''hasOwnProperty'', ''isPrototypeOf'', ''propertyIsEnumerable'',
      ''toLocaleString'', ''toString'', ''valueOf'', ''__proto__'',
      ''__defineGetter__'', ''__defineSetter__'', ''__lookupGetter__'', ''__lookupSetter__'']"

definition readProperty :: "(string \<rightharpoonup> number) \<Rightarrow> string \<Rightarrow> lookup" where
  "readProperty table key =
     (case table key of
        Some v \<Rightarrow> Own v
      | None \<Rightarrow> if key \<in> set objectPrototypeMembers then Inherited else Undefined)"

text \<open>
  The value of \<open>table[key] || fallback\<close>, as an operand of the arithmetic and of the
  comparisons that follow: \<open>Some\<close> of a number, or \<open>None\<close> for a value that is not a
  number. A comparison with such a value is false, and half of it is not a number either.
\<close>

definition orDefault :: "lookup \<Rightarrow> number \<Rightarrow> number option" where
  "orDefault found fallback =
     (case found of
        Undefined \<Rightarrow> Some fallback
      | Own v \<Rightarrow> if v \<noteq> 0 then Some v else Some fallback
      | Inherited \<Rightarrow> None)"

definition js_less :: "number \<Rightarrow> number option \<Rightarrow> bool" where
  "js_less a b = (case b of None \<Rightarrow> False | Some v \<Rightarrow> a < v)"

text \<open>The own properties of the object literal \<open>baseTimes\<close>.\<close>

definition baseTimes :: "string \<rightharpoonup> number" where
  "baseTimes = [''empty_shelf'' \<mapsto> 5 * 60 * 1000,
                ''temperature'' \<mapsto> 10 * 60 * 1000,
                ''equipment_failure'' \<mapsto> 2 * 60 * 1000]"

definition getSuppressionTime ::
  "SmartAlertFilter \<Rightarrow> string \<Rightarrow> FilterContext \<Rightarrow> number option" where
  "getSuppressionTime st ty ctx =
     (let customRule = suppressionRules st ty in
      if truthy_number customRule then customRule
      else
        let suppressionTime = orDefault (readProperty baseTimes ty) (5 * 60 * 1000)
        in if truthy_boolean (ctx_isBusinessHours ctx)
              \<and> (ty = ''equipment_failure'' \<or> ty = ''temperature'')
           then map_option (\<lambda>t. t / 2) suppressionTime
           else suppressionTime)"

text \<open>The own properties of the object literal \<open>minConfidences\<close>.\<close>

definition minConfidences :: "string \<rightharpoonup> number" where
  "minConfidences = [''empty_shelf'' \<mapsto> 70, ''temperature'' \<mapsto> 80, ''equipment_failure'' \<mapsto> 90]"

definition getMinConfidence :: "string \<Rightarrow> number option" where
  "getMinConfidence ty = orDefault (readProperty minConfidences ty) 75"

text \<open>
  \<open>cleanupOldEntries\<close> reads the clock itself; its reading is the argument \<open>now\<close>.
  Every entry older than one hour is deleted.
\<close>

definition oneHour :: number where
  "oneHour = 60 * 60 * 1000"

definition cleanupOldEntries :: "SmartAlertFilter \<Rightarrow> number \<Rightarrow> SmartAlertFilter" where
  "cleanupOldEntries st now =
     st\<lparr> recentAlerts :=
           (\<lambda>key. case recentAlerts st key of
                     None \<Rightarrow> None
                   | Some time \<Rightarrow> if now - time > oneHour then None else Some time) \<rparr>"

text \<open>\<open>this.recentAlerts.get(alertKey) || 0\<close>.\<close>

definition lastAlert :: "SmartAlertFilter \<Rightarrow> string \<Rightarrow> number" where
  "lastAlert st key =
     (if truthy_number (recentAlerts st key) then the (recentAlerts st key) else 0)"

text \<open>\<open>context.confidence && context.confidence < this.getMinConfidence(type)\<close>.\<close>

definition belowMinConfidence :: "string \<Rightarrow> FilterContext \<Rightarrow> bool" where
  "belowMinConfidence ty ctx =
     (truthy_number (ctx_confidence ctx)
      \<and> js_less (the (ctx_confidence ctx)) (getMinConfidence ty))"

text \<open>
  \<open>shouldSuppressAlert\<close> reads the clock once on entry (\<open>now\<close>) and, on the allowed path,
  a second time inside \<open>cleanupOldEntries\<close> (\<open>cleanupNow\<close>). It returns the decision and
  the filter after the call.
\<close>

definition shouldSuppressAlert ::
  "SmartAlertFilter \<Rightarrow> string \<Rightarrow> string \<Rightarrow> FilterContext \<Rightarrow> number \<Rightarrow> number
     \<Rightarrow> bool \<times> SmartAlertFilter" where
  "shouldSuppressAlert st storeId ty ctx now cleanupNow =
     (let key = alertKey storeId ty;
          suppressionTime = getSuppressionTime st ty ctx
      in if js_less (now - lastAlert st key) suppressionTime then (True, st)
         else if shouldSuppressBasedOnContext ty ctx then (True, st)
         else if belowMinConfidence ty ctx then (True, st)
         else (False,
               cleanupOldEntries (st\<lparr> recentAlerts := (recentAlerts st)(key \<mapsto> now) \<rparr>)
                 cleanupNow))"

section \<open>types.ts: the alert\<close>

text \<open>
  The interface \<open>Alert\<close>. \<open>storeName\<close> is declared without a question mark, but
  \<open>addAlert\<close> builds its alert from a \<open>Partial<Alert>\<close> by a cast, so an alert of the
  collection may lack it. \<open>fillPercent\<close> is not a declared property; \<open>addAlert\<close> reads
  it through \<open>(alertData as any)\<close> and the spread copies it into the alert.
\<close>

record Alert =
  alert_id :: string
  storeId :: string
  storeName :: "string option"
  alert_type :: string
  severity :: Severity
  title :: string
  message :: string
  timestamp :: string
  read :: bool
  location :: "string option"
  shelves :: "string list option"
  temperature :: "number option"
  threshold :: "number option"
  confidence :: "number option"
  imageUrl :: "string option"
  annotatedImageUrl :: "string option"
  fillPercent :: "number option"

text \<open>
  The argument of \<open>addAlert\<close>:
  \<open>Partial<Alert> & { storeId: string; type: Alert['type']; title: string; message: string }\<close>.
\<close>

record AlertData =
  data_id :: "string option"
  data_storeId :: string
  data_storeName :: "string option"
  data_type :: string
  data_severity :: "Severity option"
  data_title :: string
  data_message :: string
  data_timestamp :: "string option"
  data_read :: "bool option"
  data_location :: "string option"
  data_shelves :: "string list option"
  data_temperature :: "number option"
  data_threshold :: "number option"
  data_confidence :: "number option"
  data_imageUrl :: "string option"
  data_annotatedImageUrl :: "string option"
  data_fillPercent :: "number option"

section \<open>The platform\<close>

text \<open>
  What \<open>JSON.parse\<close> returns and \<open>JSON.stringify\<close> takes. The only arrays the class
  handles are arrays of alerts: \<open>JSON.stringify\<close> is given the collection, and the array
  found by \<open>importAlerts\<close> is assigned to the field of type \<open>Alert[]\<close>.
\<close>

datatype jsvalue =
    JSNull
  | JSBoolean bool
  | JSNumber number
  | JSString string
  | JSArray "Alert list"
  | JSObject "(string \<times> jsvalue) list"

text \<open>
  The functions of the browser that the class calls are parameters of the model:
  \<open>JSON.stringify(value, null, indent)\<close> (indent 0 when the call gives none),
  \<open>JSON.parse\<close> (\<open>None\<close> when it throws a SyntaxError), whether
  \<open>localStorage.setItem\<close> accepts a write to the given contents (it throws when the
  storage is unavailable or full), and the time value of \<open>new Date(string)\<close>
  (\<open>None\<close> for an invalid date).
\<close>

record Platform =
  JSON_stringify :: "jsvalue \<Rightarrow> nat \<Rightarrow> string"
  JSON_parse :: "string \<Rightarrow> jsvalue option"
  setItem_accepts :: "(string \<rightharpoonup> string) \<Rightarrow> string \<Rightarrow> string \<Rightarrow> bool"
  Date_time :: "string \<Rightarrow> number option"

text \<open>Truthiness of a possibly undefined value, and \<open>Array.isArray\<close>.\<close>

definition truthy_value :: "jsvalue option \<Rightarrow> bool" where
  "truthy_value x =
     (case x of
        None \<Rightarrow> False
      | Some JSNull \<Rightarrow> False
      | Some (JSBoolean b) \<Rightarrow> b
      | Some (JSNumber n) \<Rightarrow> n \<noteq> 0
      | Some (JSString s) \<Rightarrow> s \<noteq> []
      | Some (JSArray xs) \<Rightarrow> True
      | Some (JSObject props) \<Rightarrow> True)"

definition isArray :: "jsvalue option \<Rightarrow> bool" where
  "isArray x = (case x of Some (JSArray xs) \<Rightarrow> True | _ \<Rightarrow> False)"

definition elements :: "jsvalue option \<Rightarrow> Alert list" where
  "elements x = (case x of Some (JSArray xs) \<Rightarrow> xs | _ \<Rightarrow> [])"

datatype exception = TypeError

text \<open>
  The expression \<open>data.alerts\<close>: it throws when \<open>data\<close> is \<open>null\<close>, reads the property
  of an object, and is undefined on every other value.
\<close>

definition dataAlerts :: "jsvalue \<Rightarrow> exception + jsvalue option" where
  "dataAlerts data =
     (case data of
        JSNull \<Rightarrow> Inl TypeError
      | JSObject props \<Rightarrow> Inr (map_of props ''alerts'')
      | _ \<Rightarrow> Inr None)"

section \<open>alerts.ts: AlertManager\<close>

text \<open>
  The state of an \<open>AlertManager\<close>: its collection (newest first), its notification queue,
  the contents of \<open>localStorage\<close>, and the snapshots handed to the subscribed listeners,
  one entry for each run of \<open>notifyListeners\<close>, the latest first. The queue and the
  snapshots hold the alerts as they were when they were put there.
\<close>

record AlertManager =
  alerts :: "Alert list"
  notificationQueue :: "Alert list"
  localStorage :: "string \<rightharpoonup> string"
  notified :: "Alert list list"

definition notifyListeners :: "AlertManager \<Rightarrow> AlertManager" where
  "notifyListeners s = s\<lparr> notified := alerts s # notified s \<rparr>"

definition saveToStorage :: "Platform \<Rightarrow> AlertManager \<Rightarrow> AlertManager" where
  "saveToStorage env s =
     (let alertsToSave = take 1000 (alerts s);
          text = JSON_stringify env (JSArray alertsToSave) 0
      in if setItem_accepts env (localStorage s) ''pret-alerts'' text
         then s\<lparr> localStorage := (localStorage s)(''pret-alerts'' \<mapsto> text) \<rparr>
         else s)"

definition queueNotification :: "AlertManager \<Rightarrow> Alert \<Rightarrow> AlertManager" where
  "queueNotification s alert = s\<lparr> notificationQueue := notificationQueue s @ [alert] \<rparr>"

text \<open>
  The object literal of \<open>addAlert\<close>: the four synthesized properties, then the spread of
  \<open>alertData\<close>, whose properties replace the synthesized ones of the same name.
  \<open>generatedId\<close> is the result of \<open>generateId()\<close> and \<open>nowIso\<close> that of
  \<open>new Date().toISOString()\<close>.
\<close>

definition newAlert :: "AlertData \<Rightarrow> string \<Rightarrow> string \<Rightarrow> Alert" where
  "newAlert alertData generatedId nowIso =
     \<lparr> alert_id = (case data_id alertData of Some v \<Rightarrow> v | None \<Rightarrow> generatedId),
       storeId = data_storeId alertData,
       storeName = data_storeName alertData,
       alert_type = data_type alertData,
       severity =
         (case data_severity alertData of
            Some v \<Rightarrow> v
          | None \<Rightarrow>
              calculateAlertSeverity (data_type alertData)
                \<lparr> sc_temperature = data_temperature alertData,
                  sc_fillPercent = data_fillPercent alertData,
                  sc_confidence = data_confidence alertData \<rparr>),
       title = data_title alertData,
       message = data_message alertData,
       timestamp = (case data_timestamp alertData of Some v \<Rightarrow> v | None \<Rightarrow> nowIso),
       read = (case data_read alertData of Some v \<Rightarrow> v | None \<Rightarrow> False),
       location = data_location alertData,
       shelves = data_shelves alertData,
       temperature = data_temperature alertData,
       threshold = data_threshold alertData,
       confidence = data_confidence alertData,
       imageUrl = data_imageUrl alertData,
       annotatedImageUrl = data_annotatedImageUrl alertData,
       fillPercent = data_fillPercent alertData \<rparr>"

definition addAlert ::
  "Platform \<Rightarrow> AlertManager \<Rightarrow> AlertData \<Rightarrow> string \<Rightarrow> string \<Rightarrow> Alert \<times> AlertManager" where
  "addAlert env s alertData generatedId nowIso =
     (let alert = newAlert alertData generatedId nowIso;
          s1 = s\<lparr> alerts := alert # alerts s \<rparr>;
          s2 = saveToStorage env s1;
          s3 = notifyListeners s2;
          s4 = queueNotification s3 alert
      in (alert, s4))"

text \<open>Alerts added one after the other, each with its generated id and its clock reading.\<close>

fun addAlerts ::
  "Platform \<Rightarrow> AlertManager \<Rightarrow> (AlertData \<times> string \<times> string) list \<Rightarrow> AlertManager" where
  "addAlerts env s [] = s"
| "addAlerts env s ((alertData, generatedId, nowIso) # rest) =
     addAlerts env (snd (addAlert env s alertData generatedId nowIso)) rest"

text \<open>The alert that one entry of such a list adds.\<close>

definition materialized :: "AlertData \<times> string \<times> string \<Rightarrow> Alert" where
  "materialized x = (case x of (alertData, generatedId, nowIso) \<Rightarrow> newAlert alertData generatedId nowIso)"

text \<open>
  Durable storage holds, under the key of the class, the serialization of the first 1000
  alerts of the collection.
\<close>

definition persisted :: "Platform \<Rightarrow> AlertManager \<Rightarrow> bool" where
  "persisted env s =
     (localStorage s ''pret-alerts''
        = Some (JSON_stringify env (JSArray (take 1000 (alerts s))) 0))"

fun findIndex :: "('a \<Rightarrow> bool) \<Rightarrow> 'a list \<Rightarrow> nat option" where
  "findIndex p [] = None"
| "findIndex p (x # xs) = (if p x then Some 0 else map_option Suc (findIndex p xs))"

definition markAsRead :: "Platform \<Rightarrow> AlertManager \<Rightarrow> string \<Rightarrow> AlertManager" where
  "markAsRead env s alertId =
     (case findIndex (\<lambda>a. alert_id a = alertId) (alerts s) of
        None \<Rightarrow> s
      | Some i \<Rightarrow>
          if read (alerts s ! i) then s
          else notifyListeners (saveToStorage env
                 (s\<lparr> alerts := (alerts s)[i := (alerts s ! i)\<lparr> read := True \<rparr>] \<rparr>)))"

definition markAllAsRead :: "Platform \<Rightarrow> AlertManager \<Rightarrow> AlertManager" where
  "markAllAsRead env s =
     (let hasChanges = (\<exists>a \<in> set (alerts s). \<not> read a);
          s1 = s\<lparr> alerts := map (\<lambda>a. a\<lparr> read := True \<rparr>) (alerts s) \<rparr>
      in if hasChanges then notifyListeners (saveToStorage env s1) else s1)"

definition deleteAlert :: "Platform \<Rightarrow> AlertManager \<Rightarrow> string \<Rightarrow> AlertManager" where
  "deleteAlert env s alertId =
     (case findIndex (\<lambda>a. alert_id a = alertId) (alerts s) of
        None \<Rightarrow> s
      | Some i \<Rightarrow>
          notifyListeners (saveToStorage env
            (s\<lparr> alerts := take i (alerts s) @ drop (Suc i) (alerts s) \<rparr>)))"

definition clearAll :: "Platform \<Rightarrow> AlertManager \<Rightarrow> AlertManager" where
  "clearAll env s = notifyListeners (saveToStorage env (s\<lparr> alerts := [] \<rparr>))"

text \<open>
  The optional argument of \<open>getAlerts\<close>. \<open>limit\<close> counts elements and is an integer here.
\<close>

record AlertFilter =
  filter_storeId :: "string option"
  filter_type :: "string option"
  filter_severity :: "Severity option"
  filter_unreadOnly :: "bool option"
  filter_limit :: "int option"

text \<open>\<open>xs.slice(0, end)\<close>: a negative \<open>end\<close> counts from the end of the array.\<close>

definition slice0 :: "'a list \<Rightarrow> int \<Rightarrow> 'a list" where
  "slice0 xs end =
     (if end < 0 then take (nat (int (length xs) + end)) xs else take (nat end) xs)"

definition getAlerts :: "AlertManager \<Rightarrow> AlertFilter option \<Rightarrow> Alert list" where
  "getAlerts s fopt =
     (case fopt of
        None \<Rightarrow> alerts s
      | Some f \<Rightarrow>
          (let filtered = alerts s;
               filtered = (if truthy_string (filter_storeId f)
                           then filter (\<lambda>a. storeId a = the (filter_storeId f)) filtered
                           else filtered);
               filtered = (if truthy_string (filter_type f)
                           then filter (\<lambda>a. alert_type a = the (filter_type f)) filtered
                           else filtered);
               filtered = (if filter_severity f \<noteq> None
                           then filter (\<lambda>a. severity a = the (filter_severity f)) filtered
                           else filtered);
               filtered = (if truthy_boolean (filter_unreadOnly f)
                           then filter (\<lambda>a. \<not> read a) filtered
                           else filtered);
               filtered = (if filter_limit f \<noteq> None \<and> the (filter_limit f) \<noteq> 0
                           then slice0 filtered (the (filter_limit f))
                           else filtered)
           in filtered))"

text \<open>
  \<open>getAlerts\<close> as a step of the manager: the method copies \<open>this.alerts\<close>, builds its
  result with \<open>filter\<close> and \<open>slice\<close>, which return new arrays, and assigns to no field.
\<close>

definition getAlerts_call ::
  "AlertManager \<Rightarrow> AlertFilter option \<Rightarrow> Alert list \<times> AlertManager" where
  "getAlerts_call s fopt = (getAlerts s fopt, s)"

definition getUnreadCount :: "AlertManager \<Rightarrow> string option \<Rightarrow> nat" where
  "getUnreadCount s sid =
     length (getAlerts s (Some \<lparr> filter_storeId = sid, filter_type = None,
                                 filter_severity = None, filter_unreadOnly = Some True,
                                 filter_limit = None \<rparr>))"

record Statistics =
  total :: nat
  unread :: nat
  byType :: "string \<rightharpoonup> nat"
  bySeverity :: "Severity \<rightharpoonup> nat"
  last24Hours :: nat

text \<open>The reducer of \<open>getStatistics\<close>: \<open>acc[key] = (acc[key] || 0) + 1\<close>.\<close>

definition countInto :: "('k \<rightharpoonup> nat) \<Rightarrow> 'k \<Rightarrow> ('k \<rightharpoonup> nat)" where
  "countInto acc key = acc(key \<mapsto> (case acc key of None \<Rightarrow> 0 | Some n \<Rightarrow> n) + 1)"

definition getStatistics :: "Platform \<Rightarrow> AlertManager \<Rightarrow> number \<Rightarrow> Statistics" where
  "getStatistics env s now =
     (let yesterday = now - 24 * 60 * 60 * 1000 in
      \<lparr> total = length (alerts s),
        unread = getUnreadCount s None,
        byType = foldl (\<lambda>acc a. countInto acc (alert_type a)) Map.empty (alerts s),
        bySeverity = foldl (\<lambda>acc a. countInto acc (severity a)) Map.empty (alerts s),
        last24Hours =
          length (filter (\<lambda>a. case Date_time env (timestamp a) of
                                None \<Rightarrow> False
                              | Some t \<Rightarrow> t > yesterday) (alerts s)) \<rparr>)"

text \<open>The object that \<open>exportAlerts\<close> serializes with an indentation of 2.\<close>

definition exportDocument :: "AlertManager \<Rightarrow> string \<Rightarrow> jsvalue" where
  "exportDocument s nowIso =
     JSObject [(''alerts'', JSArray (alerts s)),
               (''exportedAt'', JSString nowIso),
               (''version'', JSString ''1.0.0'')]"

definition exportAlerts :: "Platform \<Rightarrow> AlertManager \<Rightarrow> string \<Rightarrow> string" where
  "exportAlerts env s nowIso = JSON_stringify env (exportDocument s nowIso) 2"

text \<open>
  \<open>importAlerts\<close>: a SyntaxError of \<open>JSON.parse\<close> and a TypeError of \<open>data.alerts\<close> are
  caught and give \<open>false\<close>. It returns its result and the manager after the call.
\<close>

definition importAlerts :: "Platform \<Rightarrow> AlertManager \<Rightarrow> string \<Rightarrow> bool \<times> AlertManager" where
  "importAlerts env s jsonData =
     (case JSON_parse env jsonData of
        None \<Rightarrow> (False, s)
      | Some data \<Rightarrow>
          (case dataAlerts data of
             Inl e \<Rightarrow> (False, s)
           | Inr prop \<Rightarrow>
               if truthy_value prop \<and> isArray prop
               then (True, notifyListeners (saveToStorage env (s\<lparr> alerts := elements prop \<rparr>)))
               else (False, s)))"

text \<open>
  \<open>loadFromStorage\<close>, run by the constructor: the stored text is parsed and the records
  without an id, type, title or message are dropped; a text that does not parse, or that
  parses to something without a \<open>filter\<close> method, leaves the collection empty.
\<close>

definition validAlert :: "Alert \<Rightarrow> bool" where
  "validAlert a = (alert_id a \<noteq> [] \<and> alert_type a \<noteq> [] \<and> title a \<noteq> [] \<and> message a \<noteq> [])"

definition loadFromStorage :: "Platform \<Rightarrow> AlertManager \<Rightarrow> AlertManager" where
  "loadFromStorage env s =
     (if truthy_string (localStorage s ''pret-alerts'') then
        (case JSON_parse env (the (localStorage s ''pret-alerts'')) of
           Some (JSArray xs) \<Rightarrow> s\<lparr> alerts := filter validAlert xs \<rparr>
         | _ \<Rightarrow> s\<lparr> alerts := [] \<rparr>)
      else s)"

definition new_AlertManager :: "Platform \<Rightarrow> (string \<rightharpoonup> string) \<Rightarrow> AlertManager" where
  "new_AlertManager env storage =
     loadFromStorage env
       \<lparr> alerts = [], notificationQueue = [], localStorage = storage, notified = [] \<rparr>"

text \<open>
  The spec's reading of \<open>importAlerts\<close>: the parsed text contains an array under the
  \<open>alerts\<close> key.
\<close>

definition alertsArray :: "jsvalue \<Rightarrow> Alert list option" where
  "alertsArray data =
     (case data of
        JSObject props \<Rightarrow>
          (case map_of props ''alerts'' of Some (JSArray xs) \<Rightarrow> Some xs | _ \<Rightarrow> None)
      | _ \<Rightarrow> None)"

text \<open>
  The spec's reading of \<open>getAlerts\<close>: an alert satisfies the conjunction of the criteria
  that are given, where a criterion is given when its property is truthy.
\<close>

definition satisfies :: "AlertFilter \<Rightarrow> Alert \<Rightarrow> bool" where
  "satisfies f a =
     ((truthy_string (filter_storeId f) \<longrightarrow> filter_storeId f = Some (storeId a))
      \<and> (truthy_string (filter_type f) \<longrightarrow> filter_type f = Some (alert_type a))
      \<and> (filter_severity f \<noteq> None \<longrightarrow> filter_severity f = Some (severity a))
      \<and> (truthy_boolean (filter_unreadOnly f) \<longrightarrow> \<not> read a))"

section \<open>Sample inputs\<close>

text \<open>
  A reading of 3 percent during business hours without a confidence value, the same reading
  while a person stands at the shelf, and the reading of the spec's confidence example with
  the confidence set to zero.
\<close>

definition quiet_shelf_ctx :: FilterContext where
  "quiet_shelf_ctx = \<lparr> ctx_personDetected = None, ctx_isBusinessHours = Some True,
      ctx_fillPercent = Some 3, ctx_temperature = None, ctx_confidence = None \<rparr>"

definition restocking_ctx :: FilterContext where
  "restocking_ctx = \<lparr> ctx_personDetected = Some True, ctx_isBusinessHours = Some True,
      ctx_fillPercent = Some 3, ctx_temperature = None, ctx_confidence = None \<rparr>"

definition zero_confidence_ctx :: FilterContext where
  "zero_confidence_ctx = \<lparr> ctx_personDetected = None, ctx_isBusinessHours = None,
      ctx_fillPercent = Some 3, ctx_temperature = None, ctx_confidence = Some 0 \<rparr>"

text \<open>
  A filter that allowed an empty-shelf alert for store \<open>s1\<close> at 1700000000000, a fresh
  filter with a custom window longer than the clock reading, and a fresh filter with a
  custom window of two hours.
\<close>

definition warm_filter :: SmartAlertFilter where
  "warm_filter =
     snd (shouldSuppressAlert new_SmartAlertFilter ''s1'' ''empty_shelf'' quiet_shelf_ctx
            1700000000000 1700000000001)"

definition huge_rule_filter :: SmartAlertFilter where
  "huge_rule_filter = setSuppressionRule new_SmartAlertFilter ''empty_shelf'' 2000000000000"

definition two_hour_rule_filter :: SmartAlertFilter where
  "two_hour_rule_filter = setSuppressionRule new_SmartAlertFilter ''empty_shelf'' 7200000"

text \<open>
  An alert data with the four required properties only, the alert it becomes, a manager
  without alerts and one that holds this alert.
\<close>

definition sample_data :: AlertData where
  "sample_data =
     \<lparr> data_id = None, data_storeId = ''s1'', data_storeName = None,
       data_type = ''empty_shelf'', data_severity = None, data_title = ''Empty'',
       data_message = ''Shelf B-1 is empty'', data_timestamp = None, data_read = None,
       data_location = None, data_shelves = None, data_temperature = None,
       data_threshold = None, data_confidence = None, data_imageUrl = None,
       data_annotatedImageUrl = None, data_fillPercent = None \<rparr>"

definition sample_alert :: Alert where
  "sample_alert = newAlert sample_data ''1700000000000-abc123xyz'' ''2023-11-14T22:13:20.000Z''"

definition empty_manager :: AlertManager where
  "empty_manager = \<lparr> alerts = [], notificationQueue = [], localStorage = Map.empty, notified = [] \<rparr>"

definition sample_manager :: AlertManager where
  "sample_manager = empty_manager \<lparr> alerts := [sample_alert] \<rparr>"

text \<open>
  The text that \<open>JSON.stringify\<close> gives for the export of the sample manager, and a
  platform that serializes and parses this one document, parses \<open>null\<close>, and rejects
  every other text; its storage accepts every write.
\<close>

definition line :: "string \<Rightarrow> string" where
  "line s = s @ [CHR 0x0A]"

definition sample_export_text :: string where
  \<open>sample_export_text =
     line ''{'' @
     line ''  "alerts": ['' @
     line ''    {'' @
     line ''      "id": "1700000000000-abc123xyz",'' @
     line ''      "timestamp": "2023-11-14T22:13:20.000Z",'' @
     line ''      "read": false,'' @
     line ''      "severity": "medium",'' @
     line ''      "storeId": "s1",'' @
     line ''      "type": "empty_shelf",'' @
     line ''      "title": "Empty",'' @
     line ''      "message": "Shelf B-1 is empty"'' @
     line ''    }'' @
     line ''  ],'' @
     line ''  "exportedAt": "2023-11-14T22:13:21.000Z",'' @
     line ''  "version": "1.0.0"'' @
     ''}''\<close>

definition sample_platform :: Platform where
  "sample_platform =
     \<lparr> JSON_stringify =
         (\<lambda>v indent. if v = exportDocument sample_manager ''2023-11-14T22:13:21.000Z'' \<and> indent = 2
                      then sample_export_text else ''null''),
       JSON_parse =
         (\<lambda>text. if text = sample_export_text
                  then Some (exportDocument sample_manager ''2023-11-14T22:13:21.000Z'')
                  else if text = ''null'' then Some JSNull
                  else None),
       setItem_accepts = (\<lambda>items key text. True),
       Date_time = (\<lambda>text. None) \<rparr>"

text \<open>
  An alert data that brings its own id, timestamp, read flag and severity, a list of 1001
  additions, and four filters.
\<close>

definition overriding_data :: AlertData where
  "overriding_data =
     sample_data \<lparr> data_id := Some ''chosen-id'', data_type := ''equipment_failure'',
                   data_severity := Some Low, data_timestamp := Some ''1999-12-31T23:59:59.000Z'',
                   data_read := Some True \<rparr>"

definition sample_additions :: "(AlertData \<times> string \<times> string) list" where
  "sample_additions =
     replicate 1001 (sample_data, ''1700000000000-abc123xyz'', ''2023-11-14T22:13:20.000Z'')"

definition unread_filter :: AlertFilter where
  "unread_filter =
     \<lparr> filter_storeId = Some ''s1'', filter_type = None, filter_severity = None,
       filter_unreadOnly = Some True, filter_limit = None \<rparr>"

definition first_unread_filter :: AlertFilter where
  "first_unread_filter = unread_filter \<lparr> filter_limit := Some 1 \<rparr>"

definition zero_limit_filter :: AlertFilter where
  "zero_limit_filter =
     \<lparr> filter_storeId = None, filter_type = None, filter_severity = None,
       filter_unreadOnly = None, filter_limit = Some 0 \<rparr>"

definition all_but_last_filter :: AlertFilter where
  "all_but_last_filter = zero_limit_filter \<lparr> filter_limit := Some (- 1) \<rparr>"

text \<open>
  A manager with four alerts, newest first: an unread one of store \<open>s1\<close>, an unread one of
  store \<open>s2\<close>, a read one of store \<open>s1\<close> and another unread one of store \<open>s1\<close>.
\<close>

definition alert_b :: Alert where
  "alert_b = sample_alert \<lparr> alert_id := ''1700000000001-b'', storeId := ''s2'' \<rparr>"

definition alert_c :: Alert where
  "alert_c = sample_alert \<lparr> alert_id := ''1700000000002-c'', read := True \<rparr>"

definition alert_d :: Alert where
  "alert_d = sample_alert \<lparr> alert_id := ''1700000000003-d'' \<rparr>"

definition busy_manager :: AlertManager where
  "busy_manager = empty_manager \<lparr> alerts := [sample_alert, alert_b, alert_c, alert_d] \<rparr>"

section \<open>Properties of the classifier and of the filter\<close>

lemma getMinConfidence_values:
  "getMinConfidence ''empty_shelf'' = Some 70"
  "getMinConfidence ''temperature'' = Some 80"
  "getMinConfidence ''equipment_failure'' = Some 90"
  "ty \<notin> {''empty_shelf'', ''temperature'', ''equipment_failure''} \<Longrightarrow>
     ty \<notin> set objectPrototypeMembers \<Longrightarrow> getMinConfidence ty = Some 75"
  "ty \<in> set objectPrototypeMembers \<Longrightarrow> getMinConfidence ty = None"
  by (auto simp add: getMinConfidence_def minConfidences_def readProperty_def orDefault_def
      objectPrototypeMembers_def)

subsection \<open>The classifier\<close>

lemma severity_table_nonzero:
  "calculateAlertSeverity ''temperature''
     \<lparr>sc_temperature = None, sc_fillPercent = f, sc_confidence = c\<rparr> = Medium"
  "t \<noteq> 0 \<Longrightarrow> calculateAlertSeverity ''temperature''
     \<lparr>sc_temperature = Some t, sc_fillPercent = f, sc_confidence = c\<rparr> =
     (if \<bar>t\<bar> > 10 then Critical else if \<bar>t\<bar> > 5 then High else if \<bar>t\<bar> > 2 then Medium else Low)"
  "calculateAlertSeverity ''empty_shelf''
     \<lparr>sc_temperature = tt, sc_fillPercent = None, sc_confidence = c\<rparr> = Medium"
  "p \<noteq> 0 \<Longrightarrow> calculateAlertSeverity ''empty_shelf''
     \<lparr>sc_temperature = tt, sc_fillPercent = Some p, sc_confidence = c\<rparr> =
     (if p < 5 then High else if p < 15 then Medium else Low)"
  "calculateAlertSeverity ''equipment_failure'' ctx = Critical"
  "ty \<notin> {''temperature'', ''empty_shelf'', ''equipment_failure''} \<Longrightarrow>
     calculateAlertSeverity ty ctx = Medium"
  by (simp_all add: calculateAlertSeverity_def truthy_number_def Let_def)

text \<open>
  Claim C3. The rule table of the spec gives \<open>high\<close> for an empty-shelf alert whose
  \<open>fillPercent\<close> is present and below 5, and \<open>low\<close> for a temperature alert whose
  temperature is present with an absolute value of at most 2. The code tests presence by
  truthiness, so a present reading of exactly 0 takes the branch of the absent reading:
  a shelf at 0 percent and a temperature of 0 are both classified \<open>medium\<close>. For every
  non-zero reading the table holds (\<open>severity_table_nonzero\<close>).
\<close>

theorem zero_reading_classified_medium:
  "calculateAlertSeverity ''empty_shelf''
     \<lparr>sc_temperature = None, sc_fillPercent = Some 0, sc_confidence = None\<rparr> = Medium
   \<and> calculateAlertSeverity ''temperature''
     \<lparr>sc_temperature = Some 0, sc_fillPercent = None, sc_confidence = None\<rparr> = Medium"
  by (simp add: calculateAlertSeverity_def truthy_number_def)

subsection \<open>The filter\<close>

lemma recorded_time_kept:
  assumes "cleanupNow - now \<le> oneHour"
  shows "recentAlerts
           (cleanupOldEntries (st\<lparr> recentAlerts := (recentAlerts st)(key \<mapsto> now) \<rparr>) cleanupNow) key
         = Some now"
  using assms by (simp add: cleanupOldEntries_def)

lemma lastAlert_Some: "recentAlerts st key = Some t \<Longrightarrow> lastAlert st key = t"
  by (auto simp add: lastAlert_def truthy_number_def)

lemma getSuppressionTime_rules:
  "suppressionRules st' = suppressionRules st \<Longrightarrow>
     getSuppressionTime st' ty ctx = getSuppressionTime st ty ctx"
  by (simp add: getSuppressionTime_def)

lemma default_windows:
  assumes "suppressionRules st ty = None"
  shows "ty = ''empty_shelf'' \<Longrightarrow> getSuppressionTime st ty ctx = Some 300000"
    and "ty \<in> set objectPrototypeMembers \<Longrightarrow> getSuppressionTime st ty ctx = None"
  using assms
  by (auto simp add: getSuppressionTime_def truthy_number_def baseTimes_def readProperty_def
      orDefault_def objectPrototypeMembers_def)

lemma quiet_shelf_window:
  "getSuppressionTime new_SmartAlertFilter ''empty_shelf'' quiet_shelf_ctx = Some 300000"
  by (simp add: default_windows new_SmartAlertFilter_def)

lemma quiet_shelf_not_filtered:
  "\<not> shouldSuppressBasedOnContext ''empty_shelf'' quiet_shelf_ctx"
  "\<not> belowMinConfidence ''empty_shelf'' quiet_shelf_ctx"
  by (simp_all add: shouldSuppressBasedOnContext_def belowMinConfidence_def quiet_shelf_ctx_def
      truthy_boolean_def truthy_number_def)

lemma warm_filter_eq:
  "warm_filter =
     \<lparr> recentAlerts = [alertKey ''s1'' ''empty_shelf'' \<mapsto> 1700000000000],
       suppressionRules = Map.empty \<rparr>"
proof -
  have "\<not> js_less (1700000000000 - lastAlert new_SmartAlertFilter (alertKey ''s1'' ''empty_shelf''))
            (getSuppressionTime new_SmartAlertFilter ''empty_shelf'' quiet_shelf_ctx)"
    unfolding quiet_shelf_window
    by (simp add: js_less_def lastAlert_def new_SmartAlertFilter_def truthy_number_def)
  then have "warm_filter =
      cleanupOldEntries
        (new_SmartAlertFilter
           \<lparr> recentAlerts := (recentAlerts new_SmartAlertFilter)
                               (alertKey ''s1'' ''empty_shelf'' \<mapsto> 1700000000000) \<rparr>)
        1700000000001"
    by (simp add: warm_filter_def shouldSuppressAlert_def Let_def quiet_shelf_not_filtered)
  also have "\<dots> = \<lparr> recentAlerts = [alertKey ''s1'' ''empty_shelf'' \<mapsto> 1700000000000],
                       suppressionRules = Map.empty \<rparr>"
    by (auto simp add: cleanupOldEntries_def new_SmartAlertFilter_def oneHour_def fun_eq_iff)
  finally show ?thesis .
qed

lemma two_hour_window:
  "getSuppressionTime two_hour_rule_filter ''empty_shelf'' quiet_shelf_ctx = Some 7200000"
  "getSuppressionTime huge_rule_filter ''empty_shelf'' quiet_shelf_ctx = Some 2000000000000"
  by (simp_all add: getSuppressionTime_def two_hour_rule_filter_def huge_rule_filter_def
      setSuppressionRule_def truthy_number_def)

text \<open>
  Claim C1, as the code has it. Take a store, a type whose window is a number, and a
  context that triggers neither the context rules nor the confidence floor. If the first
  call comes at least one window after the last allowed alert recorded for the key (a key
  without a record counts as alerted at time 0), its cleanup reads the clock at most one
  hour after its entry, and the second call comes less than the window after the first,
  then the first call returns false and the second returns true.
\<close>

theorem consecutive_calls_first_allowed_second_suppressed:
  assumes ctx_ok: "\<not> shouldSuppressBasedOnContext ty ctx"
    and conf_ok: "\<not> belowMinConfidence ty ctx"
    and window: "getSuppressionTime st ty ctx = Some w"
    and first_outside: "w \<le> t1 - lastAlert st (alertKey sid ty)"
    and second_inside: "t2 - t1 < w"
    and cleanup_prompt: "c1 - t1 \<le> oneHour"
  shows "fst (shouldSuppressAlert st sid ty ctx t1 c1) = False
       \<and> fst (shouldSuppressAlert (snd (shouldSuppressAlert st sid ty ctx t1 c1))
                 sid ty ctx t2 c2) = True"
proof -
  let ?key = "alertKey sid ty"
  let ?st1 = "cleanupOldEntries (st\<lparr> recentAlerts := (recentAlerts st)(?key \<mapsto> t1) \<rparr>) c1"
  have first: "shouldSuppressAlert st sid ty ctx t1 c1 = (False, ?st1)"
    using ctx_ok conf_ok window first_outside
    by (simp add: shouldSuppressAlert_def Let_def js_less_def)
  have "recentAlerts ?st1 ?key = Some t1"
    using cleanup_prompt by (rule recorded_time_kept)
  then have last: "lastAlert ?st1 ?key = t1"
    by (rule lastAlert_Some)
  have "getSuppressionTime ?st1 ty ctx = getSuppressionTime st ty ctx"
    by (rule getSuppressionTime_rules) (simp add: cleanupOldEntries_def)
  with window have window': "getSuppressionTime ?st1 ty ctx = Some w"
    by simp
  have "fst (shouldSuppressAlert ?st1 sid ty ctx t2 c2) = True"
    using second_inside last window' by (simp add: shouldSuppressAlert_def Let_def js_less_def)
  with first show ?thesis by simp
qed

theorem consecutive_calls_witness:
  "fst (shouldSuppressAlert new_SmartAlertFilter ''s1'' ''empty_shelf'' quiet_shelf_ctx
          1700000000000 1700000000001) = False
   \<and> fst (shouldSuppressAlert
            (snd (shouldSuppressAlert new_SmartAlertFilter ''s1'' ''empty_shelf'' quiet_shelf_ctx
                    1700000000000 1700000000001))
            ''s1'' ''empty_shelf'' quiet_shelf_ctx 1700000060000 1700000060001) = True"
proof -
  have c: "(300000::real)
             \<le> 1700000000000 - lastAlert new_SmartAlertFilter (alertKey ''s1'' ''empty_shelf'')"
    by (simp add: lastAlert_def new_SmartAlertFilter_def truthy_number_def)
  have d: "(1700000060000::real) - 1700000000000 < 300000"
    by simp
  have e: "(1700000000001::real) - 1700000000000 \<le> oneHour"
    by (simp add: oneHour_def)
  show ?thesis
    using consecutive_calls_first_allowed_second_suppressed
            [OF quiet_shelf_not_filtered(1) quiet_shelf_not_filtered(2) quiet_shelf_window c d e] .
qed

text \<open>
  The claim as the spec words it fails in three ways. One minute after an allowed alert the
  first of two calls is already suppressed. On a fresh filter with a custom window longer
  than the clock reading the first call is suppressed as well, because a key without a
  record counts as alerted at time 0. And with a window of two hours, a first call whose
  cleanup reads the clock more than an hour after its entry deletes its own record, so a
  second call inside the window is allowed again.
\<close>

theorem first_call_suppressed_or_second_allowed:
  "fst (shouldSuppressAlert warm_filter ''s1'' ''empty_shelf'' quiet_shelf_ctx
          1700000060000 1700000060001) = True
   \<and> fst (shouldSuppressAlert huge_rule_filter ''s1'' ''empty_shelf'' quiet_shelf_ctx
          1700000000000 1700000000001) = True
   \<and> fst (shouldSuppressAlert two_hour_rule_filter ''s1'' ''empty_shelf'' quiet_shelf_ctx
          1700000000000 1700003600001) = False
   \<and> fst (shouldSuppressAlert
            (snd (shouldSuppressAlert two_hour_rule_filter ''s1'' ''empty_shelf'' quiet_shelf_ctx
                    1700000000000 1700003600001))
            ''s1'' ''empty_shelf'' quiet_shelf_ctx 1700003600002 1700003600003) = False"
proof -
  have warm: "fst (shouldSuppressAlert warm_filter ''s1'' ''empty_shelf'' quiet_shelf_ctx
          1700000060000 1700000060001) = True"
  proof -
    have "getSuppressionTime warm_filter ''empty_shelf'' quiet_shelf_ctx = Some 300000"
      by (simp add: default_windows warm_filter_eq)
    moreover have "lastAlert warm_filter (alertKey ''s1'' ''empty_shelf'') = 1700000000000"
      by (simp add: lastAlert_Some warm_filter_eq)
    ultimately show ?thesis
      by (simp add: shouldSuppressAlert_def Let_def js_less_def)
  qed
  have huge: "fst (shouldSuppressAlert huge_rule_filter ''s1'' ''empty_shelf'' quiet_shelf_ctx
          1700000000000 1700000000001) = True"
    unfolding shouldSuppressAlert_def Let_def two_hour_window
    by (simp add: js_less_def lastAlert_def huge_rule_filter_def setSuppressionRule_def
        new_SmartAlertFilter_def truthy_number_def)
  let ?late = "cleanupOldEntries
        (two_hour_rule_filter
           \<lparr> recentAlerts := (recentAlerts two_hour_rule_filter)
                               (alertKey ''s1'' ''empty_shelf'' \<mapsto> 1700000000000) \<rparr>)
        1700003600001"
  have first: "shouldSuppressAlert two_hour_rule_filter ''s1'' ''empty_shelf'' quiet_shelf_ctx
          1700000000000 1700003600001 = (False, ?late)"
    unfolding shouldSuppressAlert_def Let_def two_hour_window
    by (simp add: js_less_def lastAlert_def two_hour_rule_filter_def setSuppressionRule_def
        new_SmartAlertFilter_def truthy_number_def quiet_shelf_not_filtered)
  have gone: "recentAlerts ?late (alertKey ''s1'' ''empty_shelf'') = None"
    by (simp add: cleanupOldEntries_def oneHour_def)
  have "getSuppressionTime ?late ''empty_shelf'' quiet_shelf_ctx
      = getSuppressionTime two_hour_rule_filter ''empty_shelf'' quiet_shelf_ctx"
    by (rule getSuppressionTime_rules) (simp add: cleanupOldEntries_def)
  then have window: "getSuppressionTime ?late ''empty_shelf'' quiet_shelf_ctx = Some 7200000"
    by (simp add: two_hour_window)
  have second: "fst (shouldSuppressAlert ?late ''s1'' ''empty_shelf'' quiet_shelf_ctx
          1700003600002 1700003600003) = False"
    unfolding shouldSuppressAlert_def Let_def window
    by (simp add: js_less_def lastAlert_def gone truthy_number_def quiet_shelf_not_filtered)
  from warm huge first second show ?thesis by simp
qed

lemma low_confidence_suppressed:
  assumes "ctx_confidence ctx = Some c" and "c \<noteq> 0"
    and "getMinConfidence ty = Some m" and "c < m"
  shows "fst (shouldSuppressAlert st sid ty ctx now cleanupNow)"
  using assms
  by (simp add: shouldSuppressAlert_def Let_def belowMinConfidence_def truthy_number_def
      js_less_def)

lemma spec_example_suppressed:
  "fst (shouldSuppressAlert st ''s1'' ''empty_shelf''
          \<lparr> ctx_personDetected = None, ctx_isBusinessHours = None, ctx_fillPercent = Some 3,
            ctx_temperature = None, ctx_confidence = Some 50 \<rparr> now cleanupNow)"
  "\<not> shouldSuppressBasedOnContext ''empty_shelf''
          \<lparr> ctx_personDetected = None, ctx_isBusinessHours = None, ctx_fillPercent = Some 3,
            ctx_temperature = None, ctx_confidence = Some 50 \<rparr>"
  by (simp_all add: low_confidence_suppressed [OF _ _ getMinConfidence_values(1)]
      shouldSuppressBasedOnContext_def truthy_boolean_def truthy_number_def)

text \<open>
  Claim C2. The claim asks for suppression whenever the confidence is present and strictly
  below the minimum of the type. The code tests presence by truthiness: a confidence of
  exactly 0, which is present and below every minimum, does not trigger the floor. On a
  fresh filter the call with \<open>{fillPercent: 3, confidence: 0}\<close> for an empty shelf is
  allowed. For every non-zero confidence below the minimum the call is suppressed in every
  state (\<open>low_confidence_suppressed\<close>), as in the example of the spec with a confidence
  of 50 (\<open>spec_example_suppressed\<close>).
\<close>

theorem zero_confidence_passes_floor:
  "fst (shouldSuppressAlert new_SmartAlertFilter ''s1'' ''empty_shelf'' zero_confidence_ctx
          1700000000000 1700000000001) = False"
  by (simp add: shouldSuppressAlert_def Let_def getSuppressionTime_def new_SmartAlertFilter_def
      truthy_number_def baseTimes_def truthy_boolean_def lastAlert_def readProperty_def
      orDefault_def js_less_def shouldSuppressBasedOnContext_def belowMinConfidence_def
      zero_confidence_ctx_def)

text \<open>
  Claim C4. A call that returns true leaves the filter as it was. A call that returns false
  returns the filter with the entry time recorded for the key and then cleaned up: every
  entry that remains is at most one hour older than the cleanup's clock reading, and the
  recorded time is there when the cleanup ran within the hour.
\<close>

theorem suppressed_call_leaves_state:
  "(fst (shouldSuppressAlert st sid ty ctx now cleanupNow) \<longrightarrow>
      snd (shouldSuppressAlert st sid ty ctx now cleanupNow) = st)
   \<and> (\<not> fst (shouldSuppressAlert st sid ty ctx now cleanupNow) \<longrightarrow>
      snd (shouldSuppressAlert st sid ty ctx now cleanupNow)
        = cleanupOldEntries
            (st\<lparr> recentAlerts := (recentAlerts st)(alertKey sid ty \<mapsto> now) \<rparr>) cleanupNow
      \<and> (\<forall>key time.
            recentAlerts (snd (shouldSuppressAlert st sid ty ctx now cleanupNow)) key = Some time
              \<longrightarrow> cleanupNow - time \<le> oneHour)
      \<and> (cleanupNow - now \<le> oneHour \<longrightarrow>
            recentAlerts (snd (shouldSuppressAlert st sid ty ctx now cleanupNow))
              (alertKey sid ty) = Some now))"
  by (auto simp add: shouldSuppressAlert_def Let_def cleanupOldEntries_def
      split: option.splits if_splits)

theorem suppressed_call_leaves_state_witness:
  "snd (shouldSuppressAlert new_SmartAlertFilter ''s1'' ''empty_shelf'' restocking_ctx
          1700000000000 1700000000001) = new_SmartAlertFilter
   \<and> recentAlerts
       (snd (shouldSuppressAlert new_SmartAlertFilter ''s1'' ''empty_shelf'' quiet_shelf_ctx
               1700000000000 1700000000001)) (alertKey ''s1'' ''empty_shelf'')
     = Some 1700000000000"
proof -
  have suppressed:
    "fst (shouldSuppressAlert new_SmartAlertFilter ''s1'' ''empty_shelf'' restocking_ctx
            1700000000000 1700000000001)"
    by (simp add: shouldSuppressAlert_def Let_def getSuppressionTime_def new_SmartAlertFilter_def
        truthy_number_def baseTimes_def truthy_boolean_def lastAlert_def readProperty_def
        orDefault_def js_less_def shouldSuppressBasedOnContext_def restocking_ctx_def)
  have allowed:
    "\<not> fst (shouldSuppressAlert new_SmartAlertFilter ''s1'' ''empty_shelf'' quiet_shelf_ctx
            1700000000000 1700000000001)"
    unfolding shouldSuppressAlert_def Let_def quiet_shelf_window
    by (simp add: quiet_shelf_not_filtered lastAlert_def new_SmartAlertFilter_def
        truthy_number_def js_less_def)
  have prompt: "(1700000000001::real) - 1700000000000 \<le> oneHour"
    by (simp add: oneHour_def)
  from suppressed allowed prompt show ?thesis
    using suppressed_call_leaves_state
            [of new_SmartAlertFilter "''s1''" "''empty_shelf''" restocking_ctx
                1700000000000 1700000000001]
          suppressed_call_leaves_state
            [of new_SmartAlertFilter "''s1''" "''empty_shelf''" quiet_shelf_ctx
                1700000000000 1700000000001]
    by blast
qed

section \<open>Properties of the alert manager\<close>

subsection \<open>What each step keeps and writes\<close>

lemma alerts_saveToStorage: "alerts (saveToStorage env s) = alerts s"
  by (simp add: saveToStorage_def Let_def)

lemma alerts_notifyListeners: "alerts (notifyListeners s) = alerts s"
  by (simp add: notifyListeners_def)

lemma saveToStorage_persisted:
  assumes "\<forall>items text. setItem_accepts env items ''pret-alerts'' text"
  shows "persisted env (saveToStorage env s)"
  using assms by (simp add: persisted_def saveToStorage_def Let_def)

lemma notifyListeners_persisted:
  "persisted env (notifyListeners s) = persisted env s"
  by (simp add: persisted_def notifyListeners_def)

lemma queueNotification_persisted:
  "persisted env (queueNotification s a) = persisted env s"
  by (simp add: persisted_def queueNotification_def)

lemma alerts_addAlert:
  "alerts (snd (addAlert env s d g t)) = newAlert d g t # alerts s"
  by (simp add: addAlert_def Let_def queueNotification_def alerts_notifyListeners
      alerts_saveToStorage)

lemma addAlert_persisted:
  assumes "\<forall>items text. setItem_accepts env items ''pret-alerts'' text"
  shows "persisted env (snd (addAlert env s d g t))"
  using saveToStorage_persisted [OF assms]
  by (simp add: addAlert_def Let_def queueNotification_persisted notifyListeners_persisted)

lemma clearAll_persisted:
  assumes "\<forall>items text. setItem_accepts env items ''pret-alerts'' text"
  shows "persisted env (clearAll env s)"
  using saveToStorage_persisted [OF assms]
  by (simp add: clearAll_def notifyListeners_persisted)

lemma deleteAlert_persisted:
  assumes "\<forall>items text. setItem_accepts env items ''pret-alerts'' text"
    and "findIndex (\<lambda>a. alert_id a = alertId) (alerts s) = Some i"
  shows "persisted env (deleteAlert env s alertId)"
  using saveToStorage_persisted [OF assms(1)] assms(2)
  by (simp add: deleteAlert_def notifyListeners_persisted)

lemma markAsRead_persisted:
  assumes "\<forall>items text. setItem_accepts env items ''pret-alerts'' text"
    and "findIndex (\<lambda>a. alert_id a = alertId) (alerts s) = Some i"
    and "\<not> read (alerts s ! i)"
  shows "persisted env (markAsRead env s alertId)"
  using saveToStorage_persisted [OF assms(1)] assms(2,3)
  by (simp add: markAsRead_def notifyListeners_persisted)

lemma markAllAsRead_persisted:
  assumes "\<forall>items text. setItem_accepts env items ''pret-alerts'' text"
    and "\<exists>a \<in> set (alerts s). \<not> read a"
  shows "persisted env (markAllAsRead env s)"
  using saveToStorage_persisted [OF assms(1)] assms(2)
  by (simp add: markAllAsRead_def Let_def notifyListeners_persisted)

lemma addAlerts_append:
  "addAlerts env s (xs @ ys) = addAlerts env (addAlerts env s xs) ys"
  by (induction xs arbitrary: s) auto

lemma alerts_addAlerts:
  "alerts (addAlerts env s ds) = rev (map materialized ds) @ alerts s"
  by (induction ds arbitrary: s) (auto simp add: alerts_addAlert materialized_def)

lemma addAlerts_persisted:
  assumes "\<forall>items text. setItem_accepts env items ''pret-alerts'' text" and "ds \<noteq> []"
  shows "persisted env (addAlerts env s ds)"
proof -
  from \<open>ds \<noteq> []\<close> obtain front d g t where ds: "ds = front @ [(d, g, t)]"
    by (metis rev_exhaust prod_cases3)
  have "addAlerts env s ds = snd (addAlert env (addAlerts env s front) d g t)"
    by (simp add: ds addAlerts_append)
  then show ?thesis
    using addAlert_persisted [OF assms(1)] by simp
qed

lemma total_getStatistics: "total (getStatistics env s now) = length (alerts s)"
  by (simp add: getStatistics_def Let_def)

lemma sample_platform_accepts:
  "\<forall>items text. setItem_accepts sample_platform items ''pret-alerts'' text"
  by (simp add: sample_platform_def)

subsection \<open>Import and export\<close>

lemma isArray_iff: "isArray v \<longleftrightarrow> (\<exists>xs. v = Some (JSArray xs))"
  by (cases v; simp add: isArray_def split: jsvalue.splits)

lemma alertsArray_None:
  assumes "alertsArray data = None" and "dataAlerts data = Inr v"
  shows "\<not> isArray v"
proof (cases data)
  case (JSObject props)
  with assms show ?thesis
    by (auto simp add: alertsArray_def dataAlerts_def isArray_iff)
qed (use assms in \<open>auto simp add: dataAlerts_def isArray_def\<close>)

lemma alertsArray_Some:
  assumes "alertsArray data = Some xs"
  shows "dataAlerts data = Inr (Some (JSArray xs))"
proof (cases data)
  case (JSObject props)
  with assms show ?thesis
    by (cases "map_of props ''alerts''")
       (auto simp add: alertsArray_def dataAlerts_def split: jsvalue.splits)
qed (use assms in \<open>simp_all add: alertsArray_def\<close>)

lemma import_rejects:
  assumes "JSON_parse env jsonData = None
           \<or> (\<exists>data. JSON_parse env jsonData = Some data \<and> alertsArray data = None)"
  shows "importAlerts env s jsonData = (False, s)"
proof (cases "JSON_parse env jsonData")
  case None
  then show ?thesis by (simp add: importAlerts_def)
next
  case (Some data)
  with assms have none: "alertsArray data = None" by simp
  show ?thesis
  proof (cases "dataAlerts data")
    case (Inl e)
    with Some show ?thesis by (simp add: importAlerts_def)
  next
    case (Inr v)
    with none have "\<not> isArray v" by (rule alertsArray_None)
    with Some Inr show ?thesis by (simp add: importAlerts_def)
  qed
qed

lemma import_accepts:
  assumes "JSON_parse env jsonData = Some data" and "alertsArray data = Some xs"
  shows "importAlerts env s jsonData
           = (True, notifyListeners (saveToStorage env (s\<lparr> alerts := xs \<rparr>)))"
  using assms(1) alertsArray_Some [OF assms(2)]
  by (simp add: importAlerts_def truthy_value_def isArray_def elements_def)

lemma sample_parse_failure: "JSON_parse sample_platform ''not json'' = None"
  by (simp add: sample_platform_def sample_export_text_def line_def)

lemma sample_parse_null:
  "JSON_parse sample_platform ''null'' = Some JSNull" "alertsArray JSNull = None"
  by (simp_all add: sample_platform_def sample_export_text_def line_def alertsArray_def)

lemma exportDocument_alertsArray: "alertsArray (exportDocument s nowIso) = Some (alerts s)"
  by (simp add: alertsArray_def exportDocument_def)

text \<open>
  Claim C6. When the text does not parse, or its parse has no array under the \<open>alerts\<close>
  key, \<open>importAlerts\<close> returns false and the manager is the one it was given: the same
  collection, the same storage, no further notification. When the parse has such an array,
  it returns true and the collection is that array, all of it, before the write to storage
  and the notification of the listeners.
\<close>

theorem import_rejects_or_replaces:
  "((JSON_parse env jsonData = None
       \<or> (\<exists>data. JSON_parse env jsonData = Some data \<and> alertsArray data = None))
      \<longrightarrow> importAlerts env s jsonData = (False, s))
   \<and> (\<forall>data xs. JSON_parse env jsonData = Some data \<and> alertsArray data = Some xs
      \<longrightarrow> importAlerts env s jsonData
            = (True, notifyListeners (saveToStorage env (s\<lparr> alerts := xs \<rparr>)))
        \<and> alerts (snd (importAlerts env s jsonData)) = xs
        \<and> notified (snd (importAlerts env s jsonData)) = xs # notified s)"
proof (intro conjI impI allI)
  assume "JSON_parse env jsonData = None
       \<or> (\<exists>data. JSON_parse env jsonData = Some data \<and> alertsArray data = None)"
  then show "importAlerts env s jsonData = (False, s)" by (rule import_rejects)
next
  fix data xs
  assume "JSON_parse env jsonData = Some data \<and> alertsArray data = Some xs"
  then have *: "importAlerts env s jsonData
      = (True, notifyListeners (saveToStorage env (s\<lparr> alerts := xs \<rparr>)))"
    by (simp add: import_accepts)
  show "importAlerts env s jsonData
      = (True, notifyListeners (saveToStorage env (s\<lparr> alerts := xs \<rparr>)))"
    by (rule *)
  show "alerts (snd (importAlerts env s jsonData)) = xs"
    by (simp add: * alerts_notifyListeners alerts_saveToStorage)
  show "notified (snd (importAlerts env s jsonData)) = xs # notified s"
    by (simp add: * notifyListeners_def saveToStorage_def Let_def)
qed

theorem import_rejects_or_replaces_witness:
  "importAlerts sample_platform sample_manager ''not json'' = (False, sample_manager)
   \<and> importAlerts sample_platform sample_manager ''null'' = (False, sample_manager)
   \<and> alerts (snd (importAlerts sample_platform empty_manager sample_export_text))
       = [sample_alert]"
proof -
  have parsed: "JSON_parse sample_platform sample_export_text
      = Some (exportDocument sample_manager ''2023-11-14T22:13:21.000Z'')"
    by (simp add: sample_platform_def)
  have array: "alertsArray (exportDocument sample_manager ''2023-11-14T22:13:21.000Z'')
      = Some [sample_alert]"
    by (simp add: exportDocument_alertsArray sample_manager_def empty_manager_def)
  show ?thesis
    using import_rejects_or_replaces [of sample_platform "''not json''" sample_manager]
      import_rejects_or_replaces [of sample_platform "''null''" sample_manager]
      import_rejects_or_replaces [of sample_platform sample_export_text empty_manager]
      sample_parse_failure sample_parse_null parsed array
    by blast
qed

subsection \<open>Retention\<close>

text \<open>
  Claim C7. Every write to storage is the serialization of the first 1000 alerts of the
  collection. When storage accepts the writes and 1001 alerts are added one after the
  other to a manager without alerts, storage holds the serialization of exactly 1000
  alerts: all but the first one added, the newest first.
\<close>

theorem retention_keeps_newest_1000:
  assumes "\<forall>items text. setItem_accepts env items ''pret-alerts'' text"
    and "alerts s = []" and "length ds = 1001"
  shows "localStorage (addAlerts env s ds) ''pret-alerts''
           = Some (JSON_stringify env (JSArray (rev (map materialized (tl ds)))) 0)
       \<and> length (rev (map materialized (tl ds))) = 1000
       \<and> alerts (addAlerts env s ds) = rev (map materialized (tl ds)) @ [materialized (hd ds)]
       \<and> persisted env (saveToStorage env s')"
proof -
  from assms(3) obtain x rest where ds: "ds = x # rest" and rest: "length rest = 1000"
    by (cases ds) auto
  have all: "alerts (addAlerts env s ds) = rev (map materialized rest) @ [materialized x]"
    by (simp add: alerts_addAlerts assms(2) ds)
  have "ds \<noteq> []" using ds by simp
  with assms(1) have "persisted env (addAlerts env s ds)"
    by (rule addAlerts_persisted)
  moreover have "take 1000 (alerts (addAlerts env s ds)) = rev (map materialized rest)"
    unfolding all using rest by simp
  ultimately have "localStorage (addAlerts env s ds) ''pret-alerts''
      = Some (JSON_stringify env (JSArray (rev (map materialized rest))) 0)"
    by (simp add: persisted_def)
  then show ?thesis
    using all rest ds saveToStorage_persisted [OF assms(1)] by simp
qed

theorem retention_keeps_newest_1000_witness:
  "localStorage (addAlerts sample_platform empty_manager sample_additions) ''pret-alerts''
     = Some (JSON_stringify sample_platform
               (JSArray (rev (map materialized (tl sample_additions)))) 0)
   \<and> length (rev (map materialized (tl sample_additions))) = 1000
   \<and> length (alerts (addAlerts sample_platform empty_manager sample_additions)) = 1001"
proof -
  have empty: "alerts empty_manager = []"
    by (simp add: empty_manager_def)
  have len: "length sample_additions = 1001"
    by (simp add: sample_additions_def)
  show ?thesis
    using retention_keeps_newest_1000 [OF sample_platform_accepts empty len] by simp
qed

text \<open>
  Claim C10. Adding alerts never shortens the collection in memory. After more than 1000
  additions, with storage accepting the writes, \<open>getAlerts()\<close> and the total of
  \<open>getStatistics()\<close> count every alert there was and every alert added, while storage
  holds 1000 of them.
\<close>

theorem memory_not_trimmed:
  assumes "\<forall>items text. setItem_accepts env items ''pret-alerts'' text"
    and "1000 < length ds"
  shows "length (getAlerts (addAlerts env s ds) None) = length (alerts s) + length ds
       \<and> total (getStatistics env (addAlerts env s ds) now) = length (alerts s) + length ds
       \<and> localStorage (addAlerts env s ds) ''pret-alerts''
           = Some (JSON_stringify env (JSArray (take 1000 (rev (map materialized ds)))) 0)
       \<and> length (take 1000 (rev (map materialized ds))) = 1000"
proof -
  have "ds \<noteq> []" using assms(2) by auto
  with assms(1) have "persisted env (addAlerts env s ds)"
    by (rule addAlerts_persisted)
  moreover have "take 1000 (alerts (addAlerts env s ds)) = take 1000 (rev (map materialized ds))"
    using assms(2) by (simp add: alerts_addAlerts)
  ultimately show ?thesis
    using assms(2)
    by (simp add: persisted_def getAlerts_def total_getStatistics alerts_addAlerts)
qed

theorem memory_not_trimmed_witness:
  "length (getAlerts (addAlerts sample_platform empty_manager sample_additions) None) = 1001
   \<and> total (getStatistics sample_platform
              (addAlerts sample_platform empty_manager sample_additions) 1700000000000) = 1001
   \<and> length (take 1000 (rev (map materialized sample_additions))) = 1000"
proof -
  have len: "1000 < length sample_additions"
    by (simp add: sample_additions_def)
  have empty: "alerts empty_manager = []"
    by (simp add: empty_manager_def)
  have count: "length sample_additions = 1001"
    by (simp add: sample_additions_def)
  show ?thesis
    using memory_not_trimmed [OF sample_platform_accepts len, of empty_manager 1700000000000]
    by (simp add: empty count)
qed

subsection \<open>Queries\<close>

lemma slice0_positive: "0 < n \<Longrightarrow> slice0 xs n = take (nat n) xs"
  by (simp add: slice0_def)

lemma getAlerts_body:
  "getAlerts s (Some f) =
     (if filter_limit f \<noteq> None \<and> the (filter_limit f) \<noteq> 0
      then slice0 (filter (satisfies f) (alerts s)) (the (filter_limit f))
      else filter (satisfies f) (alerts s))"
proof -
  have chain: "filter (\<lambda>a. truthy_boolean (filter_unreadOnly f) \<longrightarrow> \<not> read a)
         (filter (\<lambda>a. filter_severity f \<noteq> None \<longrightarrow> filter_severity f = Some (severity a))
           (filter (\<lambda>a. truthy_string (filter_type f) \<longrightarrow> filter_type f = Some (alert_type a))
             (filter (\<lambda>a. truthy_string (filter_storeId f)
                            \<longrightarrow> filter_storeId f = Some (storeId a))
               (alerts s))))
       = filter (satisfies f) (alerts s)"
    by (auto simp add: satisfies_def intro!: filter_cong)
  have sid: "\<And>xs. (if truthy_string (filter_storeId f)
                    then filter (\<lambda>a. storeId a = the (filter_storeId f)) xs else xs)
       = filter (\<lambda>a. truthy_string (filter_storeId f) \<longrightarrow> filter_storeId f = Some (storeId a)) xs"
    by (auto simp add: truthy_string_def split: option.splits intro: filter_cong)
  have ty: "\<And>xs. (if truthy_string (filter_type f)
                    then filter (\<lambda>a. alert_type a = the (filter_type f)) xs else xs)
       = filter (\<lambda>a. truthy_string (filter_type f) \<longrightarrow> filter_type f = Some (alert_type a)) xs"
    by (auto simp add: truthy_string_def split: option.splits intro: filter_cong)
  have sev: "\<And>xs. (if filter_severity f \<noteq> None
                    then filter (\<lambda>a. severity a = the (filter_severity f)) xs else xs)
       = filter (\<lambda>a. filter_severity f \<noteq> None \<longrightarrow> filter_severity f = Some (severity a)) xs"
    by (auto intro: filter_cong)
  have unr: "\<And>xs. (if truthy_boolean (filter_unreadOnly f)
                    then filter (\<lambda>a. \<not> read a) xs else xs)
       = filter (\<lambda>a. truthy_boolean (filter_unreadOnly f) \<longrightarrow> \<not> read a) xs"
    by auto
  show ?thesis
    unfolding getAlerts_def Let_def option.case sid ty sev unr chain ..
qed

lemma slice0_negative:
  assumes "n < 0"
  shows "slice0 xs n = take (length xs - nat (- n)) xs"
proof -
  have "nat (int (length xs) + n) = length xs - nat (- n)"
    using assms by arith
  with assms show ?thesis
    by (simp add: slice0_def)
qed

lemma busy_manager_matches:
  "filter (satisfies unread_filter) (alerts busy_manager) = [sample_alert, alert_d]"
  "filter (satisfies first_unread_filter) (alerts busy_manager) = [sample_alert, alert_d]"
  "filter (satisfies all_but_last_filter) (alerts busy_manager)
     = [sample_alert, alert_b, alert_c, alert_d]"
  by (simp_all add: satisfies_def unread_filter_def first_unread_filter_def
      all_but_last_filter_def zero_limit_filter_def busy_manager_def empty_manager_def
      sample_alert_def newAlert_def sample_data_def alert_b_def alert_c_def alert_d_def
      truthy_string_def truthy_boolean_def)

text \<open>
  Claim C8, as the code has it. A criterion counts as given when its property is truthy:
  a non-empty \<open>storeId\<close>, a non-empty \<open>type\<close>, a severity, \<open>unreadOnly\<close> set to true.
  For every filter, \<open>getAlerts\<close> takes the stored alerts that satisfy all the given
  criteria, in stored order, and returns all of them when no limit or a limit of 0 is
  given, the first \<open>limit\<close> of them when the limit is positive, and all but the last
  \<open>-limit\<close> of them when the limit is negative. Without a filter it returns the whole
  collection. The call leaves the manager as it was.
\<close>

theorem getAlerts_conjunction:
  "getAlerts s None = alerts s
   \<and> (filter_limit f = None \<or> filter_limit f = Some 0 \<longrightarrow>
        getAlerts s (Some f) = filter (satisfies f) (alerts s))
   \<and> (\<forall>n. filter_limit f = Some n \<and> 0 < n \<longrightarrow>
        getAlerts s (Some f) = take (nat n) (filter (satisfies f) (alerts s)))
   \<and> (\<forall>n. filter_limit f = Some n \<and> n < 0 \<longrightarrow>
        getAlerts s (Some f)
          = take (length (filter (satisfies f) (alerts s)) - nat (- n))
              (filter (satisfies f) (alerts s)))
   \<and> fst (getAlerts_call s fopt) = getAlerts s fopt
   \<and> snd (getAlerts_call s fopt) = s"
  unfolding getAlerts_body
  by (auto simp add: getAlerts_def getAlerts_call_def slice0_positive slice0_negative)

theorem getAlerts_conjunction_witness:
  "getAlerts busy_manager (Some unread_filter) = [sample_alert, alert_d]
   \<and> getAlerts busy_manager (Some first_unread_filter) = [sample_alert]
   \<and> getAlerts busy_manager (Some all_but_last_filter) = [sample_alert, alert_b, alert_c]"
proof -
  have none: "filter_limit unread_filter = None"
    by (simp add: unread_filter_def)
  have one: "filter_limit first_unread_filter = Some 1 \<and> (0::int) < 1"
    by (simp add: first_unread_filter_def unread_filter_def)
  have minus_one: "filter_limit all_but_last_filter = Some (- 1) \<and> (- 1::int) < 0"
    by (simp add: all_but_last_filter_def zero_limit_filter_def)
  have "getAlerts busy_manager (Some unread_filter)
      = filter (satisfies unread_filter) (alerts busy_manager)"
    using getAlerts_conjunction [of busy_manager unread_filter] none by blast
  moreover have "getAlerts busy_manager (Some first_unread_filter)
      = take (nat 1) (filter (satisfies first_unread_filter) (alerts busy_manager))"
    using getAlerts_conjunction [of busy_manager first_unread_filter] one by blast
  moreover have "getAlerts busy_manager (Some all_but_last_filter)
      = take (length (filter (satisfies all_but_last_filter) (alerts busy_manager)) - nat (- (- 1)))
          (filter (satisfies all_but_last_filter) (alerts busy_manager))"
    using getAlerts_conjunction [of busy_manager all_but_last_filter] minus_one by blast
  ultimately show ?thesis
    by (simp add: busy_manager_matches)
qed

text \<open>
  The claim as the spec words it fails for a limit of 0: the guard \<open>if (filter?.limit)\<close>
  skips the slice, and the call returns the one alert of the sample manager instead of
  the first 0 of them.
\<close>

theorem zero_limit_returns_everything:
  "filter_limit zero_limit_filter = Some 0
   \<and> getAlerts sample_manager (Some zero_limit_filter) = [sample_alert]
   \<and> getAlerts sample_manager (Some zero_limit_filter)
       \<noteq> take 0 (filter (satisfies zero_limit_filter) (alerts sample_manager))"
  by (simp add: getAlerts_def zero_limit_filter_def sample_manager_def empty_manager_def
      truthy_string_def truthy_boolean_def Let_def)

subsection \<open>Adding an alert\<close>

text \<open>
  Claim C9. The alert that \<open>addAlert\<close> returns is the one it puts at the head of the
  collection, and an id, timestamp, read flag or severity that the caller supplies is the
  one this alert carries, whatever the generated id, the clock and the classifier give.
\<close>

theorem caller_fields_override:
  "fst (addAlert env s d generatedId nowIso)
     = hd (alerts (snd (addAlert env s d generatedId nowIso)))
   \<and> (\<forall>v. data_id d = Some v \<longrightarrow> alert_id (fst (addAlert env s d generatedId nowIso)) = v)
   \<and> (\<forall>v. data_timestamp d = Some v \<longrightarrow>
          timestamp (fst (addAlert env s d generatedId nowIso)) = v)
   \<and> (\<forall>v. data_read d = Some v \<longrightarrow> read (fst (addAlert env s d generatedId nowIso)) = v)
   \<and> (\<forall>v. data_severity d = Some v \<longrightarrow>
          severity (fst (addAlert env s d generatedId nowIso)) = v)"
  by (simp add: addAlert_def Let_def newAlert_def queueNotification_def
      alerts_notifyListeners alerts_saveToStorage)

theorem caller_fields_override_witness:
  "alert_id (fst (addAlert sample_platform empty_manager overriding_data
                    ''1700000000000-abc123xyz'' ''2023-11-14T22:13:20.000Z'')) = ''chosen-id''
   \<and> timestamp (fst (addAlert sample_platform empty_manager overriding_data
                    ''1700000000000-abc123xyz'' ''2023-11-14T22:13:20.000Z''))
       = ''1999-12-31T23:59:59.000Z''
   \<and> read (fst (addAlert sample_platform empty_manager overriding_data
                    ''1700000000000-abc123xyz'' ''2023-11-14T22:13:20.000Z''))
   \<and> severity (fst (addAlert sample_platform empty_manager overriding_data
                    ''1700000000000-abc123xyz'' ''2023-11-14T22:13:20.000Z'')) = Low
   \<and> calculateAlertSeverity (data_type overriding_data)
        \<lparr> sc_temperature = data_temperature overriding_data,
          sc_fillPercent = data_fillPercent overriding_data,
          sc_confidence = data_confidence overriding_data \<rparr> = Critical"
proof -
  have supplied:
    "data_id overriding_data = Some ''chosen-id''"
    "data_timestamp overriding_data = Some ''1999-12-31T23:59:59.000Z''"
    "data_read overriding_data = Some True"
    "data_severity overriding_data = Some Low"
    by (simp_all add: overriding_data_def sample_data_def)
  have classified:
    "calculateAlertSeverity (data_type overriding_data)
        \<lparr> sc_temperature = data_temperature overriding_data,
          sc_fillPercent = data_fillPercent overriding_data,
          sc_confidence = data_confidence overriding_data \<rparr> = Critical"
    by (simp add: overriding_data_def sample_data_def calculateAlertSeverity_def)
  show ?thesis
    using caller_fields_override
            [THEN conjunct2, of overriding_data sample_platform empty_manager
                "''1700000000000-abc123xyz''" "''2023-11-14T22:13:20.000Z''"]
          supplied classified
    by auto
qed

end
